theory Spec2Isabelle
  imports Complex_Main "HOL-Library.Word"
begin

unbundle bit_operations_syntax

section \<open>JavaScript values used by the pipeline\<close>

text \<open>
  The errors that the modelled code can raise: the \<open>RangeError\<close> of a \<open>DataView\<close> write
  outside its buffer, and \<open>new Error(message)\<close>, which is also what the external
  collaborators (file system, inference session, tensor constructor) reject with.
\<close>

datatype js_error = RangeError | Error string

text \<open>
  A JavaScript number holding a float sample. The waveform is a \<open>Float32Array\<close>; a
  float32 has a 24-bit significand and 32767 is below \<open>2 ^ 15\<close>, so the double product
  \<open>floatArray[i] * 32767\<close> is exact and the real product below is what the code
  computes. Both zeros are \<open>Finite 0\<close>.
\<close>

datatype js_number = Finite real | PosInfinity | NegInfinity | NaN

fun js_sign :: "js_number \<Rightarrow> int" where
  "js_sign (Finite a) = (if a = 0 then 0 else if 0 < a then 1 else -1)"
| "js_sign PosInfinity = 1"
| "js_sign NegInfinity = -1"
| "js_sign NaN = 0"

text \<open>The operator \<open>*\<close> on numbers (exact wherever the real product is a double).\<close>

fun js_times :: "js_number \<Rightarrow> js_number \<Rightarrow> js_number" where
  "js_times NaN y = NaN"
| "js_times x NaN = NaN"
| "js_times (Finite a) (Finite b) = Finite (a * b)"
| "js_times x y =
     (if js_sign x * js_sign y = 0 then NaN
      else if 0 < js_sign x * js_sign y then PosInfinity else NegInfinity)"

fun Math_floor :: "js_number \<Rightarrow> js_number" where
  "Math_floor (Finite a) = Finite (of_int \<lfloor>a\<rfloor>)"
| "Math_floor x = x"

fun Math_min :: "js_number \<Rightarrow> js_number \<Rightarrow> js_number" where
  "Math_min NaN y = NaN"
| "Math_min x NaN = NaN"
| "Math_min NegInfinity y = NegInfinity"
| "Math_min x NegInfinity = NegInfinity"
| "Math_min PosInfinity y = y"
| "Math_min x PosInfinity = x"
| "Math_min (Finite a) (Finite b) = Finite (min a b)"

fun Math_max :: "js_number \<Rightarrow> js_number \<Rightarrow> js_number" where
  "Math_max NaN y = NaN"
| "Math_max x NaN = NaN"
| "Math_max PosInfinity y = PosInfinity"
| "Math_max x PosInfinity = PosInfinity"
| "Math_max NegInfinity y = y"
| "Math_max x NegInfinity = x"
| "Math_max (Finite a) (Finite b) = Finite (max a b)"

text \<open>
  Storing a number into an \<open>Int16Array\<close> element (the conversion ToInt16): NaN and the
  infinities become 0, a finite number is truncated towards zero and wrapped to 16 bits.
\<close>

fun ToInt16 :: "js_number \<Rightarrow> 16 word" where
  "ToInt16 (Finite a) = word_of_int (if a < 0 then \<lceil>a\<rceil> else \<lfloor>a\<rfloor>)"
| "ToInt16 x = 0"

section \<open>Array buffers and data views\<close>

type_synonym byte = "8 word"
type_synonym ArrayBuffer = "byte list"

text \<open>The bytes of a 16-bit and of a 32-bit value, least significant byte first.\<close>

definition bytes16 :: "16 word \<Rightarrow> byte list" where
  "bytes16 w = [ucast w, ucast (drop_bit 8 w)]"

definition bytes32 :: "32 word \<Rightarrow> byte list" where
  "bytes32 w = [ucast w, ucast (drop_bit 8 w), ucast (drop_bit 16 w), ucast (drop_bit 24 w)]"

text \<open>
  A \<open>DataView\<close> write of the bytes \<open>bs\<close> at \<open>byteOffset\<close>: a \<open>RangeError\<close> when the
  bytes do not fit into the buffer, and the buffer with these bytes replaced otherwise.
\<close>

definition store :: "nat \<Rightarrow> byte list \<Rightarrow> ArrayBuffer \<Rightarrow> js_error + ArrayBuffer" where
  "store byteOffset bs view =
     (if length view < byteOffset + length bs then Inl RangeError
      else Inr (take byteOffset view @ bs @ drop (byteOffset + length bs) view))"

text \<open>
  The setters convert their number argument to the width of the field (modulo
  \<open>2 ^ 8\<close>, \<open>2 ^ 16\<close>, \<open>2 ^ 32\<close>); the flag is \<open>littleEndian\<close>.
\<close>

definition setUint8 :: "nat \<Rightarrow> int \<Rightarrow> ArrayBuffer \<Rightarrow> js_error + ArrayBuffer" where
  "setUint8 byteOffset v view = store byteOffset [word_of_int v] view"

definition setUint16 :: "nat \<Rightarrow> int \<Rightarrow> bool \<Rightarrow> ArrayBuffer \<Rightarrow> js_error + ArrayBuffer" where
  "setUint16 byteOffset v littleEndian view =
     store byteOffset
       (if littleEndian then bytes16 (word_of_int v) else rev (bytes16 (word_of_int v))) view"

definition setInt16 :: "nat \<Rightarrow> int \<Rightarrow> bool \<Rightarrow> ArrayBuffer \<Rightarrow> js_error + ArrayBuffer" where
  "setInt16 byteOffset v littleEndian view =
     store byteOffset
       (if littleEndian then bytes16 (word_of_int v) else rev (bytes16 (word_of_int v))) view"

definition setUint32 :: "nat \<Rightarrow> int \<Rightarrow> bool \<Rightarrow> ArrayBuffer \<Rightarrow> js_error + ArrayBuffer" where
  "setUint32 byteOffset v littleEndian view =
     store byteOffset
       (if littleEndian then bytes32 (word_of_int v) else rev (bytes32 (word_of_int v))) view"

text \<open>\<open>'R'.charCodeAt(0)\<close>: the code of a character of the source text.\<close>

definition charCodeAt0 :: "char \<Rightarrow> int" where
  "charCodeAt0 c = of_char c"

text \<open>A block of statements on the view: the first one that throws ends the block.\<close>

fun statements :: "('s \<Rightarrow> js_error + 's) list \<Rightarrow> 's \<Rightarrow> js_error + 's" where
  "statements [] s = Inr s"
| "statements (st # sts) s = (case st s of Inl e \<Rightarrow> Inl e | Inr s' \<Rightarrow> statements sts s')"

section \<open>The WAV encoder\<close>

definition SAMPLE_RATE :: int where
  "SAMPLE_RATE = 24000"

definition headerLength :: nat where
  "headerLength = 44"

text \<open>The body of the first loop of \<open>_floatArrayToWav\<close>: one sample to 16-bit PCM.\<close>

definition floatToInt16 :: "js_number \<Rightarrow> 16 word" where
  "floatToInt16 x =
     ToInt16 (Math_max (Finite (- 32768))
       (Math_min (Finite 32767) (Math_floor (js_times x (Finite 32767)))))"

text \<open>The second loop: \<open>view.setInt16(headerLength + i * 2, int16Array[i], true)\<close>.\<close>

function write_samples ::
  "16 word list \<Rightarrow> nat \<Rightarrow> nat \<Rightarrow> ArrayBuffer \<Rightarrow> js_error + ArrayBuffer" where
  "write_samples int16Array numSamples i view =
     (if i < numSamples then
        (case setInt16 (headerLength + i * 2) (sint (int16Array ! i)) True view of
           Inl e \<Rightarrow> Inl e
         | Inr view' \<Rightarrow> write_samples int16Array numSamples (i + 1) view')
      else Inr view)"
  by pat_completeness auto
termination
  by (relation "measure (\<lambda>(a, n, i, v). n - i)") auto

declare write_samples.simps [simp del]

definition floatArrayToWav :: "js_number list \<Rightarrow> int \<Rightarrow> js_error + ArrayBuffer" where
  "floatArrayToWav floatArray sampleRate =
     (let numSamples = length floatArray;
          int16Array = map floatToInt16 floatArray;
          dataLength = length int16Array * 2;
          buffer = replicate (headerLength + dataLength) (0 :: byte)
      in statements
        [setUint8 0 (charCodeAt0 CHR ''R''),
         setUint8 1 (charCodeAt0 CHR ''I''),
         setUint8 2 (charCodeAt0 CHR ''F''),
         setUint8 3 (charCodeAt0 CHR ''F''),
         setUint32 4 (36 + int dataLength) True,
         setUint8 8 (charCodeAt0 CHR ''W''),
         setUint8 9 (charCodeAt0 CHR ''A''),
         setUint8 10 (charCodeAt0 CHR ''V''),
         setUint8 11 (charCodeAt0 CHR ''E''),
         setUint8 12 (charCodeAt0 CHR ''f''),
         setUint8 13 (charCodeAt0 CHR ''m''),
         setUint8 14 (charCodeAt0 CHR ''t''),
         setUint8 15 (charCodeAt0 CHR '' ''),
         setUint32 16 16 True,
         setUint16 20 1 True,
         setUint16 22 1 True,
         setUint32 24 sampleRate True,
         setUint32 28 (sampleRate * 2) True,
         setUint16 32 2 True,
         setUint16 34 16 True,
         setUint8 36 (charCodeAt0 CHR ''d''),
         setUint8 37 (charCodeAt0 CHR ''a''),
         setUint8 38 (charCodeAt0 CHR ''t''),
         setUint8 39 (charCodeAt0 CHR ''a''),
         setUint32 40 (int dataLength) True,
         write_samples int16Array numSamples 0]
        buffer)"

text \<open>
  Reading a field back: the number that a byte sequence denotes when its first byte is the
  least significant one, and the bytes of a buffer at an offset.
\<close>

definition le_value :: "byte list \<Rightarrow> nat" where
  "le_value bs = foldr (\<lambda>b acc. unat b + 256 * acc) bs 0"

definition field :: "nat \<Rightarrow> nat \<Rightarrow> ArrayBuffer \<Rightarrow> byte list" where
  "field byteOffset n view = take n (drop byteOffset view)"

definition ascii :: "string \<Rightarrow> byte list" where
  "ascii cs = map (\<lambda>c. word_of_int (charCodeAt0 c)) cs"

text \<open>The canonical 44-byte header as the specification lists it, field by field.\<close>

definition riff_header :: "int \<Rightarrow> nat \<Rightarrow> byte list" where
  "riff_header sampleRate dataLength =
     ascii ''RIFF'' @ bytes32 (word_of_int (36 + int dataLength)) @
     ascii ''WAVE'' @
     ascii ''fmt '' @ bytes32 16 @ bytes16 1 @ bytes16 1 @
     bytes32 (word_of_int sampleRate) @ bytes32 (word_of_int (sampleRate * 2)) @
     bytes16 2 @ bytes16 16 @
     ascii ''data'' @ bytes32 (word_of_int (int dataLength))"

section \<open>The tokenizer\<close>

text \<open>
  A text is the sequence of code points that \<open>for (const char of text)\<close> visits.
  \<open>VOCAB\<close> is the object literal of the source: its keys are one-character strings.
\<close>

type_synonym codepoint = nat

definition code :: "char \<Rightarrow> codepoint" where
  "code c = of_char c"

definition js_string :: "string \<Rightarrow> codepoint list" where
  "js_string cs = map code cs"

definition VOCAB :: "(codepoint \<times> int) list" where
  "VOCAB =
     [(code CHR '' '', 6), (code CHR '','', 2), (code CHR ''.'', 3), (code CHR ''!'', 4),
      (code CHR ''?'', 5),
      (code CHR ''a'', 33), (code CHR ''b'', 34), (code CHR ''c'', 35), (code CHR ''d'', 36),
      (code CHR ''e'', 37), (code CHR ''f'', 38), (code CHR ''g'', 39), (code CHR ''h'', 40),
      (code CHR ''i'', 41), (code CHR ''j'', 42), (code CHR ''k'', 43), (code CHR ''l'', 44),
      (code CHR ''m'', 45), (code CHR ''n'', 46), (code CHR ''o'', 47), (code CHR ''p'', 48),
      (code CHR ''q'', 49), (code CHR ''r'', 50), (code CHR ''s'', 51), (code CHR ''t'', 52),
      (code CHR ''u'', 53), (code CHR ''v'', 54), (code CHR ''w'', 55), (code CHR ''x'', 56),
      (code CHR ''y'', 57), (code CHR ''z'', 58)]"

text \<open>\<open>VOCAB[char]\<close>: \<open>None\<close> is \<open>undefined\<close>.\<close>

definition VOCAB_get :: "codepoint \<Rightarrow> int option" where
  "VOCAB_get char = map_of VOCAB char"

text \<open>The loop of \<open>tokenize\<close> over the lower-cased text, pushing onto \<open>tokens\<close>.\<close>

fun push_tokens :: "codepoint list \<Rightarrow> int list \<Rightarrow> int list" where
  "push_tokens [] tokens = tokens"
| "push_tokens (char # rest) tokens =
     (case VOCAB_get char of
        None \<Rightarrow> push_tokens rest tokens
      | Some t \<Rightarrow> push_tokens rest (tokens @ [t]))"

text \<open>
  \<open>String.prototype.toLowerCase\<close> belongs to the JavaScript runtime and follows the
  Unicode tables; \<open>tokenize\<close> takes it as its first argument.
\<close>

definition tokenize :: "(codepoint list \<Rightarrow> codepoint list) \<Rightarrow> codepoint list \<Rightarrow> int list" where
  "tokenize toLower text =
     (let tokens = [];
          tokens = tokens @ [0];
          tokens = push_tokens (toLower text) tokens;
          tokens = tokens @ [0]
      in tokens)"

text \<open>What \<open>toLowerCase\<close> does on a text of ASCII characters.\<close>

definition ascii_toLowerCase :: "codepoint list \<Rightarrow> codepoint list" where
  "ascii_toLowerCase text = map (\<lambda>c. if 65 \<le> c \<and> c \<le> 90 then c + 32 else c) text"

section \<open>Generating audio\<close>

definition STYLE_DIM :: int where
  "STYLE_DIM = 256"

definition MAX_PHONEME_LENGTH :: int where
  "MAX_PHONEME_LENGTH = 510"

text \<open>
  The data handed to \<open>new Tensor(type, data, dims)\<close> and the tensor it makes. A
  constructor of \<open>tensor_data\<close> stands for the array built from the given numbers:
  \<open>new Int32Array(tokens)\<close>, the plain array \<open>tokens\<close>, \<open>new Float32Array(xs)\<close>.
\<close>

datatype tensor_data =
  Int32Array "int list" | NumberArray "int list" | Float32Array "js_number list"

datatype tensor = Tensor (tensor_type: string) (tensor_data: tensor_data) (dims: "nat list")

text \<open>The result of \<open>session.run\<close>: named outputs, each with a \<open>data\<close> that may be missing.\<close>

datatype output_value = Output (data: "js_number list option")

type_synonym outputs = "(string \<Rightarrow> output_value option) option"

text \<open>What a request does to the outside world, in order, with the console.\<close>

datatype event =
    Call_downloadVoice string
  | Call_getVoiceData string
  | Call_run "(string \<times> tensor) list"
  | Call_writeAsStringAsync string string
  | Call_createAsync string
  | Console_log string
  | Console_warn string
  | Console_error string

text \<open>
  The collaborators outside the modelled file: each field is what the call answers, an
  error when it throws or rejects. \<open>getVoiceData\<close> is imported from \<open>./voices\<close>.
\<close>

record 'sound runtime =
  toLowerCase :: "codepoint list \<Rightarrow> codepoint list"
  getVoiceData :: "string \<Rightarrow> js_error + js_number list"
  Tensor_throws :: "string \<Rightarrow> tensor_data \<Rightarrow> nat list \<Rightarrow> js_error option"
  session_run :: "(string \<times> tensor) list \<Rightarrow> js_error + outputs"
  btoa :: "string \<Rightarrow> string"
  cacheDirectory :: string
  Date_now :: string
  writeAsStringAsync :: "string \<Rightarrow> string \<Rightarrow> js_error option"
  createAsync :: "string \<Rightarrow> js_error + 'sound"

record KokoroOnnx =
  isOnnxAvailable :: bool
  isModelLoaded :: bool

text \<open>A computation: the events so far, and an error thrown or a value.\<close>

type_synonym 'a action = "event list \<times> (js_error + 'a)"

definition done_with :: "'a \<Rightarrow> 'a action" where
  "done_with x = ([], Inr x)"

definition throw :: "js_error \<Rightarrow> 'a action" where
  "throw e = ([], Inl e)"

definition emit :: "event \<Rightarrow> unit action" where
  "emit ev = ([ev], Inr ())"

definition call :: "event \<Rightarrow> js_error + 'a \<Rightarrow> 'a action" where
  "call ev answer = ([ev], answer)"

definition and_then :: "'a action \<Rightarrow> ('a \<Rightarrow> 'b action) \<Rightarrow> 'b action" where
  "and_then m f =
     (case m of
        (tr, Inl e) \<Rightarrow> (tr, Inl e)
      | (tr, Inr x) \<Rightarrow> (case f x of (tr', r) \<Rightarrow> (tr @ tr', r)))"

definition try_catch :: "'a action \<Rightarrow> (js_error \<Rightarrow> 'a action) \<Rightarrow> 'a action" where
  "try_catch m handler =
     (case m of
        (tr, Inl e) \<Rightarrow> (case handler e of (tr', r) \<Rightarrow> (tr @ tr', r))
      | (tr, Inr x) \<Rightarrow> (tr, Inr x))"

text \<open>\<open>array.slice(start, stop)\<close> with its relative and clamped indices.\<close>

definition array_slice :: "'a list \<Rightarrow> int \<Rightarrow> int \<Rightarrow> 'a list" where
  "array_slice xs start stop =
     (let len = int (length xs);
          k = (if start < 0 then max (len + start) 0 else min start len);
          final = (if stop < 0 then max (len + stop) 0 else min stop len)
      in take (nat (final - k)) (drop (nat k) xs))"

text \<open>\<open>Math.min(Math.max(tokens.length - 2, 0), 509)\<close>.\<close>

definition numTokens :: "int list \<Rightarrow> int" where
  "numTokens tokens = min (max (int (length tokens) - 2) 0) 509"

text \<open>
  Step 2 of \<open>generateAudio\<close>, the style lookup: the voice data, the offset and the slice.
\<close>

definition styleData :: "'sound runtime \<Rightarrow> string \<Rightarrow> int \<Rightarrow> js_number list action" where
  "styleData rt voiceId n =
     and_then (call (Call_getVoiceData voiceId) (getVoiceData rt voiceId)) (\<lambda>voiceData.
       let offset = n * STYLE_DIM
       in done_with (array_slice voiceData offset (offset + STYLE_DIM)))"

definition new_Tensor ::
  "'sound runtime \<Rightarrow> string \<Rightarrow> tensor_data \<Rightarrow> nat list \<Rightarrow> tensor action" where
  "new_Tensor rt ty d ds =
     (case Tensor_throws rt ty d ds of
        Some e \<Rightarrow> throw e
      | None \<Rightarrow> done_with (Tensor ty d ds))"

text \<open>Step 3: the three input tensors, with the fallback for \<open>input_ids\<close>.\<close>

definition prepare_inputs ::
  "'sound runtime \<Rightarrow> int list \<Rightarrow> js_number list \<Rightarrow> js_number \<Rightarrow> (string \<times> tensor) list action" where
  "prepare_inputs rt tokens style speed =
     and_then
       (try_catch
          (new_Tensor rt ''int64'' (Int32Array tokens) [1, length tokens])
          (\<lambda>error. and_then
             (emit (Console_warn
                ''Failed to create int64 tensor with Int32Array, trying with regular array:''))
             (\<lambda>_. new_Tensor rt ''int64'' (NumberArray tokens) [1, length tokens])))
       (\<lambda>input_ids.
     and_then (new_Tensor rt ''float32'' (Float32Array style) [1, nat STYLE_DIM]) (\<lambda>style_t.
     and_then (new_Tensor rt ''float32'' (Float32Array [speed]) [1]) (\<lambda>speed_t.
     done_with [(''input_ids'', input_ids), (''style'', style_t), (''speed'', speed_t)])))"

text \<open>The check after inference: \<open>!outputs || !outputs['waveform'] || !outputs['waveform'].data\<close>.\<close>

definition checked_waveform :: "outputs \<Rightarrow> js_number list action" where
  "checked_waveform outs =
     (case outs of
        None \<Rightarrow> throw (Error ''Invalid output from model inference'')
      | Some named \<Rightarrow>
          (case named ''waveform'' of
             None \<Rightarrow> throw (Error ''Invalid output from model inference'')
           | Some out \<Rightarrow>
               (case data out of
                  None \<Rightarrow> throw (Error ''Invalid output from model inference'')
                | Some waveform \<Rightarrow> done_with waveform)))"

definition arrayBufferToBase64 :: "'sound runtime \<Rightarrow> ArrayBuffer \<Rightarrow> string" where
  "arrayBufferToBase64 rt buffer = btoa rt (map (\<lambda>b. char_of (unat b)) buffer)"

definition floatArrayToAudioFile :: "'sound runtime \<Rightarrow> js_number list \<Rightarrow> string action" where
  "floatArrayToAudioFile rt floatArray =
     try_catch
       (and_then ([], floatArrayToWav floatArray SAMPLE_RATE) (\<lambda>wavBuffer.
        let base64Data = arrayBufferToBase64 rt wavBuffer;
            tempFilePath = cacheDirectory rt @ ''temp_audio_'' @ Date_now rt @ ''.wav''
        in and_then
             (call (Call_writeAsStringAsync tempFilePath base64Data)
                (case writeAsStringAsync rt tempFilePath base64Data of
                   Some e \<Rightarrow> Inl e | None \<Rightarrow> Inr ()))
             (\<lambda>_. and_then (emit (Console_log ''Audio saved to:''))
             (\<lambda>_. done_with tempFilePath))))
       (\<lambda>error. and_then (emit (Console_error ''Error converting float array to audio file:''))
          (\<lambda>_. throw error))"

text \<open>
  \<open>generateAudio\<close>. The method \<open>downloadVoice\<close> catches its own errors and its result
  is not used, so the call is an event and nothing more. The instance contributes its two
  flags; the session is the \<open>session_run\<close> of the runtime.
\<close>

definition generateAudio ::
  "KokoroOnnx \<Rightarrow> 'sound runtime \<Rightarrow> codepoint list \<Rightarrow> string \<Rightarrow> js_number \<Rightarrow> 'sound action" where
  "generateAudio this rt text voiceId speed =
     (if \<not> isOnnxAvailable this then
        throw (Error ''ONNX Runtime is not available on this platform'')
      else if \<not> isModelLoaded this then
        throw (Error ''Model not loaded. Call loadModel() first.'')
      else
        try_catch
          (and_then (emit (Call_downloadVoice voiceId)) (\<lambda>_.
           let tokens = tokenize (toLowerCase rt) text in
           and_then (styleData rt voiceId (numTokens tokens)) (\<lambda>style.
           and_then (prepare_inputs rt tokens style speed) (\<lambda>inputs.
           and_then (emit (Console_log ''Running inference with inputs:'')) (\<lambda>_.
           and_then (call (Call_run inputs) (session_run rt inputs)) (\<lambda>outs.
           and_then (checked_waveform outs) (\<lambda>waveform.
           and_then (emit (Console_log ''Generated waveform with length:'')) (\<lambda>_.
           and_then (floatArrayToAudioFile rt waveform) (\<lambda>audioUri.
           and_then (call (Call_createAsync audioUri) (createAsync rt audioUri)) (\<lambda>sound.
           done_with sound))))))))))
          (\<lambda>error. and_then (emit (Console_error ''Error generating audio:''))
             (\<lambda>_. throw error)))"

section \<open>Observing a request\<close>

text \<open>The inputs of every inference call of a trace, and the dimensions of \<open>input_ids\<close>.\<close>

fun run_inputs :: "event list \<Rightarrow> (string \<times> tensor) list list" where
  "run_inputs [] = []"
| "run_inputs (Call_run inputs # evs) = inputs # run_inputs evs"
| "run_inputs (ev # evs) = run_inputs evs"

definition input_ids_dims :: "(string \<times> tensor) list \<Rightarrow> nat list option" where
  "input_ids_dims inputs = map_option dims (map_of inputs ''input_ids'')"

text \<open>The data of the \<open>style\<close> tensor among the inputs of an inference call.\<close>

definition style_input :: "(string \<times> tensor) list \<Rightarrow> tensor_data option" where
  "style_input inputs = map_option tensor_data (map_of inputs ''style'')"

text \<open>The events that make audio: writing the file and creating the sound.\<close>

fun audio_event :: "event \<Rightarrow> bool" where
  "audio_event (Call_writeAsStringAsync path content) = True"
| "audio_event (Call_createAsync uri) = True"
| "audio_event ev = False"

text \<open>The condition under which the check after inference throws.\<close>

definition no_waveform :: "outputs \<Rightarrow> bool" where
  "no_waveform outs =
     (case outs of
        None \<Rightarrow> True
      | Some named \<Rightarrow> (case named ''waveform'' of None \<Rightarrow> True | Some out \<Rightarrow> data out = None))"

text \<open>
  A loaded instance, a response with one output named \<open>waveform\<close>, and a runtime in which
  every collaborator succeeds, for a given voice blob and a given response.
\<close>

definition loaded :: KokoroOnnx where
  "loaded = \<lparr>isOnnxAvailable = True, isModelLoaded = True\<rparr>"

definition waveform_output :: "js_number list option \<Rightarrow> outputs" where
  "waveform_output d = Some (\<lambda>name. if name = ''waveform'' then Some (Output d) else None)"

definition obliging_runtime :: "js_number list \<Rightarrow> outputs \<Rightarrow> string runtime" where
  "obliging_runtime voice outs =
     \<lparr>toLowerCase = ascii_toLowerCase,
      getVoiceData = (\<lambda>voiceId. Inr voice),
      Tensor_throws = (\<lambda>ty d ds. None),
      session_run = (\<lambda>inputs. Inr outs),
      btoa = (\<lambda>binary. binary),
      cacheDirectory = ''cache/'',
      Date_now = ''0'',
      writeAsStringAsync = (\<lambda>path content. None),
      createAsync = (\<lambda>uri. Inr uri)\<rparr>"

section \<open>Properties\<close>

subsection \<open>Bytes and fields\<close>

lemma unat_byte0: "unat (ucast (w :: 'a::len word) :: byte) = unat w mod 256"
  by (simp add: unsigned_ucast_eq take_bit_eq_mod)

lemma unat_drop: "unat (drop_bit n (w :: 'a::len word)) = unat w div 2 ^ n"
  unfolding unat_drop_bit_eq by (rule drop_bit_eq_div)

lemma split2: "(x::nat) mod 256 + 256 * (x div 256 mod 256) = x mod 65536"
proof -
  have "x mod 65536 = x mod (256 * 256)" by simp
  also have "\<dots> = x mod 256 + 256 * (x div 256 mod 256)"
    by (simp only: mod_mult2_eq)
  finally show ?thesis by simp
qed

lemma split4:
  "(x::nat) mod 256 + (256 * (x div 256 mod 256) + (65536 * (x div 65536 mod 256) +
     16777216 * (x div 16777216 mod 256))) = x mod 4294967296"
proof -
  have lo: "x mod 256 + 256 * (x div 256 mod 256) = x mod 65536"
    by (rule split2)
  have hi: "(x div 65536) mod 256 + 256 * (x div 65536 div 256 mod 256) = x div 65536 mod 65536"
    by (rule split2)
  have d: "x div 65536 div 256 = x div 16777216"
    by (simp add: div_mult2_eq [symmetric])
  have "x mod 4294967296 = x mod (65536 * 65536)" by simp
  also have "\<dots> = x mod 65536 + 65536 * (x div 65536 mod 65536)"
    by (simp only: mod_mult2_eq)
  finally show ?thesis using lo hi d by simp
qed

lemma le_value_bytes32: "le_value (bytes32 w) = unat w"
proof -
  have "unat w < 2 ^ 32" using unsigned_less [of w] by simp
  then have "unat w mod 4294967296 = unat w"
    and "unat w div 16777216 mod 256 = unat w div 16777216" by simp_all
  then show ?thesis
    using split4 [of "unat w"]
    unfolding le_value_def bytes32_def
    by (simp add: unat_byte0 unat_drop)
qed

lemma le_value_bytes16: "le_value (bytes16 w) = unat w"
proof -
  have "unat w < 2 ^ 16" using unsigned_less [of w] by simp
  then have "unat w mod 65536 = unat w" by simp
  then show ?thesis
    unfolding le_value_def bytes16_def
    by (simp add: unat_byte0 unat_drop split2)
qed

lemma unat_word_of_int32: "int (unat (word_of_int k :: 32 word)) = k mod 2 ^ 32"
  by (simp add: unat_eq_nat_uint uint_word_of_int)

lemma le_value32_word_of_int:
  "int (le_value (bytes32 (word_of_int k))) = k mod 2 ^ 32"
  by (simp only: le_value_bytes32 unat_word_of_int32)

lemma length_bytes16: "length (bytes16 w) = 2"
  by (simp add: bytes16_def)

subsection \<open>The encoder writes the header and the samples\<close>

lemma setInt16_at_end:
  assumes "length pre = off" and "2 \<le> length zs"
  shows "setInt16 off (sint w) True (pre @ zs) = Inr ((pre @ bytes16 w) @ drop 2 zs)"
  using assms by (simp add: setInt16_def store_def length_bytes16)

lemma write_samples_fill:
  "length pre = headerLength + 2 * i \<Longrightarrow> i \<le> n \<Longrightarrow> length a = n \<Longrightarrow> length zs = 2 * (n - i) \<Longrightarrow>
   write_samples a n i (pre @ zs) = Inr (pre @ concat (map bytes16 (drop i a)))"
proof (induction "n - i" arbitrary: i pre zs)
  case 0
  then show ?case by (simp add: write_samples.simps)
next
  case (Suc k)
  then have lt: "i < n" by simp
  have zs: "2 \<le> length zs" using Suc.prems lt by simp
  have step: "setInt16 (headerLength + i * 2) (sint (a ! i)) True (pre @ zs)
      = Inr ((pre @ bytes16 (a ! i)) @ drop 2 zs)"
    using Suc.prems zs by (intro setInt16_at_end) (simp_all add: mult.commute)
  have rest: "write_samples a n (Suc i) ((pre @ bytes16 (a ! i)) @ drop 2 zs)
      = Inr ((pre @ bytes16 (a ! i)) @ concat (map bytes16 (drop (Suc i) a)))"
    using Suc.prems Suc.hyps(2) lt
    by (intro Suc.hyps(1)) (simp_all add: length_bytes16)
  have dr: "drop i a = a ! i # drop (Suc i) a"
    using lt Suc.prems by (simp add: Cons_nth_drop_Suc)
  show ?case
    using rest by (subst write_samples.simps) (simp add: lt step dr)
qed

lemma write_samples_all:
  assumes "length view = headerLength + 2 * length a"
  shows "write_samples a (length a) 0 view = Inr (take headerLength view @ concat (map bytes16 a))"
proof -
  have "write_samples a (length a) 0 (take headerLength view @ drop headerLength view)
      = Inr (take headerLength view @ concat (map bytes16 (drop 0 a)))"
    using assms by (intro write_samples_fill) simp_all
  then show ?thesis by simp
qed

lemma floatArrayToWav_bytes:
  "floatArrayToWav floatArray sampleRate =
     Inr (riff_header sampleRate (length floatArray * 2) @
          concat (map (bytes16 \<circ> floatToInt16) floatArray))"
proof -
  have ws: "\<And>view. length view = 44 + 2 * length floatArray \<Longrightarrow>
     write_samples (map floatToInt16 floatArray) (length floatArray) 0 view
     = Inr (take 44 view @ concat (map (bytes16 \<circ> floatToInt16) floatArray))"
    using write_samples_all [of _ "map floatToInt16 floatArray"]
    by (simp add: headerLength_def)
  show ?thesis
    unfolding floatArrayToWav_def Let_def
    by (simp add: setUint8_def setUint16_def setUint32_def store_def bytes16_def bytes32_def
      riff_header_def ascii_def charCodeAt0_def headerLength_def ws)
qed

lemma header_field_0: "field 0 4 (riff_header sr dl @ rest) = ascii ''RIFF''"
  by (simp add: field_def riff_header_def ascii_def)

lemma header_field_4: "field 4 4 (riff_header sr dl @ rest) = bytes32 (word_of_int (36 + int dl))"
  by (simp add: field_def riff_header_def ascii_def bytes32_def)

lemma header_field_8: "field 8 4 (riff_header sr dl @ rest) = ascii ''WAVE''"
  by (simp add: field_def riff_header_def ascii_def bytes32_def)

lemma header_field_12: "field 12 4 (riff_header sr dl @ rest) = ascii ''fmt ''"
  by (simp add: field_def riff_header_def ascii_def bytes32_def)

lemma header_field_16: "field 16 4 (riff_header sr dl @ rest) = bytes32 16"
  by (simp add: field_def riff_header_def ascii_def bytes32_def)

lemma header_field_20: "field 20 2 (riff_header sr dl @ rest) = bytes16 1"
  by (simp add: field_def riff_header_def ascii_def bytes32_def bytes16_def)

lemma header_field_22: "field 22 2 (riff_header sr dl @ rest) = bytes16 1"
  by (simp add: field_def riff_header_def ascii_def bytes32_def bytes16_def)

lemma header_field_24: "field 24 4 (riff_header sr dl @ rest) = bytes32 (word_of_int sr)"
  by (simp add: field_def riff_header_def ascii_def bytes32_def bytes16_def)

lemma header_field_28: "field 28 4 (riff_header sr dl @ rest) = bytes32 (word_of_int (sr * 2))"
  by (simp add: field_def riff_header_def ascii_def bytes32_def bytes16_def)

lemma header_field_32: "field 32 2 (riff_header sr dl @ rest) = bytes16 2"
  by (simp add: field_def riff_header_def ascii_def bytes32_def bytes16_def)

lemma header_field_34: "field 34 2 (riff_header sr dl @ rest) = bytes16 16"
  by (simp add: field_def riff_header_def ascii_def bytes32_def bytes16_def)

lemma header_field_36: "field 36 4 (riff_header sr dl @ rest) = ascii ''data''"
  by (simp add: field_def riff_header_def ascii_def bytes32_def bytes16_def)

lemma header_field_40: "field 40 4 (riff_header sr dl @ rest) = bytes32 (word_of_int (int dl))"
  by (simp add: field_def riff_header_def ascii_def bytes32_def bytes16_def)

lemma length_riff_header: "length (riff_header sr dl) = 44"
  by (simp add: riff_header_def ascii_def bytes32_def bytes16_def)

lemma length_pcm_bytes: "length (concat (map (\<lambda>s. bytes16 (f s)) xs)) = 2 * length xs"
  by (induction xs) (simp_all add: length_bytes16)

text \<open>The sample with index \<open>i\<close> sits at the offset \<open>44 + 2 * i\<close>.\<close>

lemma field_sample:
  assumes "i < length xs"
  shows "field (length pre + 2 * i) 2 (pre @ concat (map (\<lambda>s. bytes16 (f s)) xs)) = bytes16 (f (xs ! i))"
  using assms
proof (induction xs arbitrary: i pre)
  case Nil
  then show ?case by simp
next
  case (Cons x xs)
  show ?case
  proof (cases i)
    case 0
    then show ?thesis by (simp add: field_def bytes16_def)
  next
    case (Suc j)
    with Cons.prems have j: "j < length xs" by simp
    have "field (length (pre @ bytes16 (f x)) + 2 * j) 2
        ((pre @ bytes16 (f x)) @ concat (map (\<lambda>s. bytes16 (f s)) xs)) = bytes16 (f (xs ! j))"
      by (rule Cons.IH [OF j])
    with Suc show ?thesis by (simp add: length_bytes16)
  qed
qed

lemma floatArrayToWav_sample:
  assumes "i < length floatArray"
  shows "\<exists>wav. floatArrayToWav floatArray sampleRate = Inr wav \<and>
    field (44 + 2 * i) 2 wav = bytes16 (floatToInt16 (floatArray ! i))"
  using field_sample [OF assms, of "riff_header sampleRate (length floatArray * 2)" floatToInt16]
  by (simp add: floatArrayToWav_bytes length_riff_header comp_def)

text \<open>
  Claim C1. For every sequence of samples and every sample rate, \<open>floatArrayToWav\<close>
  returns a buffer of \<open>44 + 2 * numSamples\<close> bytes that starts with the 44-byte header:
  \<open>RIFF\<close> at 0, the chunk size \<open>36 + dataLength\<close> at 4, \<open>WAVE\<close> at 8, \<open>fmt \<close> at 12,
  16 at 16, the format code 1 at 20, the channel count 1 at 22, the sample rate at 24, the
  byte rate \<open>sampleRate * 2\<close> at 28, the block alignment 2 at 32, 16 bits per sample at
  34, \<open>data\<close> at 36 and \<open>dataLength = numSamples * 2\<close> at 40, every number read back
  least significant byte first as an unsigned field of its width (a 32-bit field holds
  its number modulo \<open>2 ^ 32\<close>, which is the number itself whenever it fits). The bytes
  after the header are the 16-bit samples in order, least significant byte first. The
  empty sequence at 24000 Hz gives exactly 44 bytes, with chunk size 36 and data
  length 0.
\<close>

theorem floatArrayToWav_layout:
  "(\<exists>wav. floatArrayToWav floatArray sampleRate = Inr wav \<and>
      length wav = 44 + 2 * length floatArray \<and>
      field 0 4 wav = ascii ''RIFF'' \<and>
      int (le_value (field 4 4 wav)) = (36 + 2 * int (length floatArray)) mod 2 ^ 32 \<and>
      field 8 4 wav = ascii ''WAVE'' \<and>
      field 12 4 wav = ascii ''fmt '' \<and>
      le_value (field 16 4 wav) = 16 \<and>
      le_value (field 20 2 wav) = 1 \<and>
      le_value (field 22 2 wav) = 1 \<and>
      int (le_value (field 24 4 wav)) = sampleRate mod 2 ^ 32 \<and>
      int (le_value (field 28 4 wav)) = (sampleRate * 2) mod 2 ^ 32 \<and>
      le_value (field 32 2 wav) = 2 \<and>
      le_value (field 34 2 wav) = 16 \<and>
      field 36 4 wav = ascii ''data'' \<and>
      int (le_value (field 40 4 wav)) = (2 * int (length floatArray)) mod 2 ^ 32 \<and>
      drop 44 wav = concat (map (\<lambda>s. bytes16 (floatToInt16 s)) floatArray)) \<and>
   floatArrayToWav [] 24000 =
     Inr [0x52, 0x49, 0x46, 0x46, 36, 0, 0, 0, 0x57, 0x41, 0x56, 0x45,
          0x66, 0x6D, 0x74, 0x20, 16, 0, 0, 0, 1, 0, 1, 0,
          0xC0, 0x5D, 0, 0, 0x80, 0xBB, 0, 0, 2, 0, 16, 0,
          0x64, 0x61, 0x74, 0x61, 0, 0, 0, 0]"
proof
  let ?n = "length floatArray"
  let ?pcm = "concat (map (\<lambda>s. bytes16 (floatToInt16 s)) floatArray)"
  let ?wav = "riff_header sampleRate (?n * 2) @ ?pcm"
  have wav: "floatArrayToWav floatArray sampleRate = Inr ?wav"
    by (simp add: floatArrayToWav_bytes comp_def)
  have len: "length ?wav = 44 + 2 * ?n"
    by (simp only: length_append length_riff_header length_pcm_bytes)
  have chunk: "int (le_value (field 4 4 ?wav)) = (36 + 2 * int ?n) mod 2 ^ 32"
    by (simp only: header_field_4 le_value32_word_of_int) (simp add: mult.commute)
  have sub1: "le_value (field 16 4 ?wav) = 16"
    by (simp only: header_field_16 le_value_bytes32) simp
  have fmt: "le_value (field 20 2 ?wav) = 1"
    by (simp only: header_field_20 le_value_bytes16) simp
  have chans: "le_value (field 22 2 ?wav) = 1"
    by (simp only: header_field_22 le_value_bytes16) simp
  have rate: "int (le_value (field 24 4 ?wav)) = sampleRate mod 2 ^ 32"
    by (simp only: header_field_24 le_value32_word_of_int)
  have byteRate: "int (le_value (field 28 4 ?wav)) = (sampleRate * 2) mod 2 ^ 32"
    by (simp only: header_field_28 le_value32_word_of_int)
  have align: "le_value (field 32 2 ?wav) = 2"
    by (simp only: header_field_32 le_value_bytes16) simp
  have bits: "le_value (field 34 2 ?wav) = 16"
    by (simp only: header_field_34 le_value_bytes16) simp
  have dlen: "int (le_value (field 40 4 ?wav)) = (2 * int ?n) mod 2 ^ 32"
    by (simp only: header_field_40 le_value32_word_of_int) (simp add: mult.commute)
  have pcm: "drop 44 ?wav = ?pcm"
    by (simp add: length_riff_header)
  show "\<exists>wav. floatArrayToWav floatArray sampleRate = Inr wav \<and>
      length wav = 44 + 2 * length floatArray \<and>
      field 0 4 wav = ascii ''RIFF'' \<and>
      int (le_value (field 4 4 wav)) = (36 + 2 * int (length floatArray)) mod 2 ^ 32 \<and>
      field 8 4 wav = ascii ''WAVE'' \<and>
      field 12 4 wav = ascii ''fmt '' \<and>
      le_value (field 16 4 wav) = 16 \<and>
      le_value (field 20 2 wav) = 1 \<and>
      le_value (field 22 2 wav) = 1 \<and>
      int (le_value (field 24 4 wav)) = sampleRate mod 2 ^ 32 \<and>
      int (le_value (field 28 4 wav)) = (sampleRate * 2) mod 2 ^ 32 \<and>
      le_value (field 32 2 wav) = 2 \<and>
      le_value (field 34 2 wav) = 16 \<and>
      field 36 4 wav = ascii ''data'' \<and>
      int (le_value (field 40 4 wav)) = (2 * int (length floatArray)) mod 2 ^ 32 \<and>
      drop 44 wav = concat (map (\<lambda>s. bytes16 (floatToInt16 s)) floatArray)"
    using wav len chunk sub1 fmt chans rate byteRate align bits dlen pcm
      header_field_0 [of sampleRate "?n * 2" ?pcm] header_field_8 [of sampleRate "?n * 2" ?pcm]
      header_field_12 [of sampleRate "?n * 2" ?pcm] header_field_36 [of sampleRate "?n * 2" ?pcm]
    by blast
  show "floatArrayToWav [] 24000 =
     Inr [0x52, 0x49, 0x46, 0x46, 36, 0, 0, 0, 0x57, 0x41, 0x56, 0x45,
          0x66, 0x6D, 0x74, 0x20, 16, 0, 0, 0, 1, 0, 1, 0,
          0xC0, 0x5D, 0, 0, 0x80, 0xBB, 0, 0, 2, 0, 16, 0,
          0x64, 0x61, 0x74, 0x61, 0, 0, 0, 0]"
    by (simp add: floatArrayToWav_bytes riff_header_def ascii_def charCodeAt0_def
        bytes32_def bytes16_def)
qed

subsection \<open>Samples\<close>

lemma clamp_of_int:
  "max (- 32768) (min 32767 (of_int k :: real)) = of_int (max (- 32768) (min 32767 k))"
  by (simp add: max_def min_def)

lemma floatToInt16_Finite:
  "floatToInt16 (Finite s) = word_of_int (max (- 32768) (min 32767 \<lfloor>s * 32767\<rfloor>))"
proof -
  let ?k = "max (- 32768) (min 32767 \<lfloor>s * 32767\<rfloor>)"
  have "Math_max (Finite (- 32768)) (Math_min (Finite 32767) (Math_floor (js_times (Finite s) (Finite 32767))))
      = Finite (of_int ?k)"
    by (simp add: clamp_of_int)
  then show ?thesis
    unfolding floatToInt16_def by (simp del: of_int_max of_int_min)
qed

lemma sint_clamped:
  "sint (word_of_int (max (- 32768) (min 32767 k)) :: 16 word) = max (- 32768) (min 32767 k)"
  by (simp add: sint_sbintrunc' signed_take_bit_int_eq_self)

lemma floatToInt16_NaN: "floatToInt16 NaN = 0"
  by (simp add: floatToInt16_def)

text \<open>
  Claim C2. The 16-bit value that the encoder stores and emits for a sample \<open>s\<close> is
  \<open>\<lfloor>s * 32767\<rfloor>\<close> clamped to the range from \<open>-32768\<close> to \<open>32767\<close>: 2 gives 32767, \<open>-2\<close>
  gives \<open>-32768\<close> and 0 gives 0. The infinities are clamped in the same way.
\<close>

theorem floatToInt16_clamp_floor:
  "sint (floatToInt16 (Finite s)) = max (- 32768) (min 32767 \<lfloor>s * 32767\<rfloor>) \<and>
   floatArrayToWav [Finite s] sampleRate =
     Inr (riff_header sampleRate 2 @
       bytes16 (word_of_int (max (- 32768) (min 32767 \<lfloor>s * 32767\<rfloor>)))) \<and>
   sint (floatToInt16 (Finite 2)) = 32767 \<and>
   sint (floatToInt16 (Finite (- 2))) = - 32768 \<and>
   sint (floatToInt16 (Finite 0)) = 0 \<and>
   sint (floatToInt16 PosInfinity) = 32767 \<and>
   sint (floatToInt16 NegInfinity) = - 32768"
proof -
  have one: "floatArrayToWav [Finite s] sampleRate =
     Inr (riff_header sampleRate 2 @
       bytes16 (word_of_int (max (- 32768) (min 32767 \<lfloor>s * 32767\<rfloor>))))"
    by (simp add: floatArrayToWav_bytes floatToInt16_Finite)
  have inf: "sint (floatToInt16 PosInfinity) = 32767 \<and> sint (floatToInt16 NegInfinity) = - 32768"
    by (simp add: floatToInt16_def)
  from one inf show ?thesis
    by (simp add: floatToInt16_Finite sint_clamped)
qed

text \<open>
  Claim C3, as amended. The four samples 0.5, \<open>-1\<close>, 1 and 0 at 24000 Hz are encoded as
  the 44-byte header followed by the PCM values 16383, \<open>-32767\<close>, 32767 and 0, each as a
  little-endian 16-bit integer: \<open>\<lfloor>0.5 * 32767\<rfloor> = 16383\<close> and \<open>\<lfloor>-1 * 32767\<rfloor> = -32767\<close>.
\<close>

theorem wav_of_four_samples:
  "map (\<lambda>s. sint (floatToInt16 s)) [Finite (1 / 2), Finite (- 1), Finite 1, Finite 0]
     = [16383, - 32767, 32767, 0] \<and>
   floatArrayToWav [Finite (1 / 2), Finite (- 1), Finite 1, Finite 0] 24000 =
     Inr [0x52, 0x49, 0x46, 0x46, 44, 0, 0, 0, 0x57, 0x41, 0x56, 0x45,
          0x66, 0x6D, 0x74, 0x20, 16, 0, 0, 0, 1, 0, 1, 0,
          0xC0, 0x5D, 0, 0, 0x80, 0xBB, 0, 0, 2, 0, 16, 0,
          0x64, 0x61, 0x74, 0x61, 8, 0, 0, 0,
          0xFF, 0x3F, 0x01, 0x80, 0xFF, 0x7F, 0, 0]"
  by (simp add: floatArrayToWav_bytes floatToInt16_Finite riff_header_def ascii_def
      charCodeAt0_def bytes32_def bytes16_def)

text \<open>
  Claim C3, as stated, fails: the encoding of these four samples is not the header
  followed by the PCM values 16384, \<open>-32768\<close>, 32767 and 0.
\<close>

theorem wav_of_four_samples_counterexample:
  "floatArrayToWav [Finite (1 / 2), Finite (- 1), Finite 1, Finite 0] 24000 \<noteq>
     Inr (riff_header 24000 8 @
       concat (map (\<lambda>v. bytes16 (word_of_int v)) [16384, - 32768, 32767, 0]))"
  by (simp add: floatArrayToWav_bytes floatToInt16_Finite bytes16_def)

subsection \<open>Tokens\<close>

lemma push_tokens_map_filter:
  "push_tokens cs tokens = tokens @ List.map_filter VOCAB_get cs"
  by (induction cs arbitrary: tokens) (simp_all add: map_filter_simps split: option.splits)

lemma tokenize_map_filter:
  "tokenize toLower text = 0 # List.map_filter VOCAB_get (toLower text) @ [0]"
  by (simp add: tokenize_def push_tokens_map_filter)

lemma map_filter_unmapped:
  "\<forall>c \<in> set cs. f c = None \<Longrightarrow> List.map_filter f cs = []"
  by (induction cs) (simp_all add: map_filter_simps)

lemma VOCAB_get_simps:
  "VOCAB_get 104 = Some 40" "VOCAB_get 105 = Some 41" "VOCAB_get 46 = Some 3"
  "VOCAB_get 35 = None" "VOCAB_get 97 = Some 33"
  by (simp_all add: VOCAB_get_def VOCAB_def code_def)

lemma length_tokenize:
  "length (tokenize toLower text) = 2 + length (filter (\<lambda>c. VOCAB_get c \<noteq> None) (toLower text))"
  by (simp add: tokenize_map_filter List.map_filter_def)

lemma map_filter_replicate:
  "f x = Some y \<Longrightarrow> List.map_filter f (replicate n x) = replicate n y"
  by (induction n) (simp_all add: map_filter_simps)

lemma tokenize_replicate_a:
  "tokenize ascii_toLowerCase (replicate n (code CHR ''a'')) = 0 # replicate n 33 @ [0]"
proof -
  have "ascii_toLowerCase (replicate n (code CHR ''a'')) = replicate n 97"
    by (simp add: ascii_toLowerCase_def code_def)
  then show ?thesis
    by (simp add: tokenize_map_filter map_filter_replicate [of VOCAB_get 97 33] VOCAB_get_simps)
qed

text \<open>
  Claim C4. For every text the result of \<open>tokenize\<close> starts and ends with the sentinel
  0. For the empty text (which lower-casing leaves empty) the result is \<open>[0, 0]\<close>, and so
  it is for every text none of whose lower-cased symbols is a key of \<open>VOCAB\<close>; the
  lookup is case-insensitive, so an unmapped symbol is one that has no entry once it is
  lower-cased.
\<close>

theorem tokenize_sentinels:
  "hd (tokenize toLower text) = 0 \<and> last (tokenize toLower text) = 0 \<and>
   (toLower [] = [] \<longrightarrow> tokenize toLower [] = [0, 0]) \<and>
   ((\<forall>c \<in> set (toLower text). VOCAB_get c = None) \<longrightarrow> tokenize toLower text = [0, 0])"
  by (simp add: tokenize_map_filter map_filter_unmapped map_filter_simps)

text \<open>
  Claim C4, at the empty text and at the text \<open>##\<close>, whose symbol is not in \<open>VOCAB\<close>.
\<close>

theorem tokenize_sentinels_witness:
  "ascii_toLowerCase [] = [] \<and> tokenize ascii_toLowerCase [] = [0, 0] \<and>
   map VOCAB_get (ascii_toLowerCase (js_string ''##'')) = [None, None] \<and>
   hd (tokenize ascii_toLowerCase (js_string ''##'')) = 0 \<and>
   last (tokenize ascii_toLowerCase (js_string ''##'')) = 0 \<and>
   tokenize ascii_toLowerCase (js_string ''##'') = [0, 0]"
proof -
  have e: "ascii_toLowerCase [] = []"
    by (simp add: ascii_toLowerCase_def)
  have m: "map VOCAB_get (ascii_toLowerCase (js_string ''##'')) = [None, None]"
    by (simp add: ascii_toLowerCase_def js_string_def code_def VOCAB_get_simps)
  then have u: "\<forall>c \<in> set (ascii_toLowerCase (js_string ''##'')). VOCAB_get c = None"
    by (simp add: ascii_toLowerCase_def js_string_def code_def)
  from e m u tokenize_sentinels [of ascii_toLowerCase "[]"]
    tokenize_sentinels [of ascii_toLowerCase "js_string ''##''"]
  show ?thesis by simp
qed

text \<open>
  Claim C5. \<open>tokenize\<close> looks up the symbols of the lower-cased text: between the two
  sentinels the result holds the \<open>VOCAB\<close> id of every symbol that has one, in the order
  of the text, and nothing for a symbol that has none. With \<open>h\<close>, \<open>i\<close> and \<open>.\<close> mapped to
  40, 41 and 3, the text \<open>Hi.\<close> gives \<open>[0, 40, 41, 3, 0]\<close>.
\<close>

theorem tokenize_lookup:
  "tokenize toLower text = [0] @ map (\<lambda>c. the (VOCAB_get c)) (filter (\<lambda>c. VOCAB_get c \<noteq> None) (toLower text)) @ [0] \<and>
   VOCAB_get (code CHR ''h'') = Some 40 \<and> VOCAB_get (code CHR ''i'') = Some 41 \<and>
   VOCAB_get (code CHR ''.'') = Some 3 \<and>
   ascii_toLowerCase (js_string ''Hi.'') = js_string ''hi.'' \<and>
   tokenize ascii_toLowerCase (js_string ''Hi.'') = [0, 40, 41, 3, 0]"
  by (simp add: tokenize_map_filter List.map_filter_def comp_def VOCAB_get_simps
      ascii_toLowerCase_def js_string_def code_def)

subsection \<open>The style lookup\<close>

lemma array_slice_nonneg:
  "0 \<le> start \<Longrightarrow> start \<le> stop \<Longrightarrow>
   array_slice xs start stop = take (nat (stop - start)) (drop (nat start) xs)"
  by (auto simp: array_slice_def Let_def min_def)

lemma styleData_slice:
  assumes "getVoiceData rt voiceId = Inr voice" and "0 \<le> t"
  shows "styleData rt voiceId t =
    ([Call_getVoiceData voiceId], Inr (take 256 (drop (256 * nat t) voice)))"
proof -
  have "array_slice voice (t * 256) (t * 256 + 256) = take 256 (drop (nat (t * 256)) voice)"
    using assms(2) by (subst array_slice_nonneg) simp_all
  moreover have "nat (t * 256) = 256 * nat t"
    using assms(2) by (simp add: nat_mult_distrib)
  ultimately show ?thesis
    using assms(1)
    by (simp add: styleData_def and_then_def call_def done_with_def STYLE_DIM_def)
qed

text \<open>
  Claim C7. For a voice blob and a token count \<open>t\<close> with \<open>t * 256 + 256\<close> at most the
  length of the blob, the style lookup returns the 256 floats of the blob at the
  positions \<open>256 * t\<close>, ..., \<open>256 * t + 255\<close>.
\<close>

theorem styleData_frame:
  assumes "getVoiceData rt voiceId = Inr voice" and "0 \<le> t"
    and "t * 256 + 256 \<le> int (length voice)"
  shows "snd (styleData rt voiceId t) = Inr (take 256 (drop (256 * nat t) voice)) \<and>
    length (take 256 (drop (256 * nat t) voice)) = 256 \<and>
    take 256 (drop (256 * nat t) voice) = map (\<lambda>i. voice ! (256 * nat t + i)) [0..<256]"
proof -
  have len: "256 * nat t + 256 \<le> length voice"
    using assms(2,3) by linarith
  then have l: "length (take 256 (drop (256 * nat t) voice)) = 256"
    by simp
  have "take 256 (drop (256 * nat t) voice) = map (\<lambda>i. voice ! (256 * nat t + i)) [0..<256]"
    using len l by (intro nth_equalityI) simp_all
  with l styleData_slice [OF assms(1,2)] show ?thesis by simp
qed

text \<open>
  Claim C7, at a blob of two frames, of ones and of twos, and the token count 1: the
  lookup returns the frame of twos.
\<close>

theorem styleData_frame_witness:
  "getVoiceData (obliging_runtime (replicate 256 (Finite 1) @ replicate 256 (Finite 2)) None)
      ''af_heart'' = Inr (replicate 256 (Finite 1) @ replicate 256 (Finite 2)) \<and>
   (0::int) \<le> 1 \<and>
   (1::int) * 256 + 256 \<le> int (length (replicate 256 (Finite 1) @ replicate 256 (Finite 2))) \<and>
   snd (styleData (obliging_runtime (replicate 256 (Finite 1) @ replicate 256 (Finite 2)) None)
      ''af_heart'' 1) = Inr (replicate 256 (Finite 2))"
proof -
  let ?voice = "replicate 256 (Finite 1) @ replicate 256 (Finite 2)"
  have g: "getVoiceData (obliging_runtime ?voice None) ''af_heart'' = Inr ?voice"
    by (simp add: obliging_runtime_def)
  have t: "(0::int) \<le> 1" by simp
  have l: "(1::int) * 256 + 256 \<le> int (length ?voice)" by simp
  from styleData_frame [OF g t l] g t l show ?thesis by simp
qed

text \<open>
  Claim C8, as amended. When the offset plus 256 exceeds the length of the blob, the
  style lookup raises no error: \<open>slice\<close> clamps the range, and the lookup returns the
  floats from the offset to the end of the blob, fewer than 256 of them (none when the
  offset is at or beyond the end), without padding.
\<close>

theorem styleData_short:
  assumes "getVoiceData rt voiceId = Inr voice" and "0 \<le> t"
    and "int (length voice) < t * 256 + 256"
  shows "snd (styleData rt voiceId t) = Inr (drop (256 * nat t) voice) \<and>
    length (drop (256 * nat t) voice) < 256"
proof -
  have len: "length voice < 256 * nat t + 256"
    using assms(2,3) by linarith
  then have "take 256 (drop (256 * nat t) voice) = drop (256 * nat t) voice"
    by simp
  with len styleData_slice [OF assms(1,2)] show ?thesis by simp
qed

text \<open>
  Claim C8 as amended, at a blob of 300 floats and the token count 1: the lookup returns
  the last 44 floats.
\<close>

theorem styleData_short_witness:
  "getVoiceData (obliging_runtime (replicate 300 (Finite 1)) None) ''af_heart''
     = Inr (replicate 300 (Finite 1)) \<and>
   (0::int) \<le> 1 \<and> int (length (replicate 300 (Finite 1))) < 1 * 256 + 256 \<and>
   snd (styleData (obliging_runtime (replicate 300 (Finite 1)) None) ''af_heart'' 1)
     = Inr (replicate 44 (Finite 1))"
proof -
  let ?voice = "replicate 300 (Finite 1)"
  have g: "getVoiceData (obliging_runtime ?voice None) ''af_heart'' = Inr ?voice"
    by (simp add: obliging_runtime_def)
  have t: "(0::int) \<le> 1" by simp
  have l: "int (length ?voice) < 1 * 256 + 256" by simp
  from styleData_short [OF g t l] g t l show ?thesis by simp
qed

text \<open>
  Claim C8, as stated, fails: for a blob of 300 floats and the token count 1 the offset
  plus 256 is 512, and the style lookup returns 44 floats instead of failing.
\<close>

theorem styleData_counterexample:
  "styleData (obliging_runtime (replicate 300 (Finite 1)) None) ''af_heart'' 1
     = ([Call_getVoiceData ''af_heart''], Inr (replicate 44 (Finite 1)))"
  by (simp add: styleData_def and_then_def call_def done_with_def STYLE_DIM_def
      obliging_runtime_def array_slice_def)

subsection \<open>Requests\<close>

lemma checked_waveform_throws:
  "no_waveform outs \<Longrightarrow>
   checked_waveform outs = ([], Inl (Error ''Invalid output from model inference''))"
  by (auto simp: no_waveform_def checked_waveform_def throw_def split: option.splits)

lemma checked_waveform_present:
  "checked_waveform (waveform_output (Some waveform)) = ([], Inr waveform)"
  by (simp add: checked_waveform_def waveform_output_def done_with_def)

lemma and_then_Inl: "and_then (tr, Inl e) f = (tr, Inl e)"
  by (simp add: and_then_def)

lemma and_then_Inr: "and_then (tr, Inr x) f = (tr @ fst (f x), snd (f x))"
  by (simp add: and_then_def split: prod.splits)

lemma try_catch_Inl: "try_catch (tr, Inl e) h = (tr @ fst (h e), snd (h e))"
  by (simp add: try_catch_def split: prod.splits)

lemma try_catch_Inr: "try_catch (tr, Inr x) h = (tr, Inr x)"
  by (simp add: try_catch_def)

lemmas action_simps = and_then_Inl and_then_Inr try_catch_Inl try_catch_Inr
  done_with_def throw_def emit_def call_def

lemma run_inputs_append: "run_inputs (tr @ tr') = run_inputs tr @ run_inputs tr'"
  by (induction tr rule: run_inputs.induct) simp_all

lemma styleData_cases:
  obtains e where "styleData rt voiceId n = ([Call_getVoiceData voiceId], Inl e)"
  | style where "styleData rt voiceId n = ([Call_getVoiceData voiceId], Inr style)"
  by (cases "getVoiceData rt voiceId") (auto simp: styleData_def action_simps Let_def)

lemma prepare_inputs_cases:
  obtains tr e where "prepare_inputs rt tokens style speed = (tr, Inl e)"
    and "filter audio_event tr = []" and "run_inputs tr = []"
  | tr inputs where "prepare_inputs rt tokens style speed = (tr, Inr inputs)"
    and "filter audio_event tr = []" and "run_inputs tr = []"
  by (cases "Tensor_throws rt ''int64'' (Int32Array tokens) [1, length tokens]";
      cases "Tensor_throws rt ''int64'' (NumberArray tokens) [1, length tokens]";
      cases "Tensor_throws rt ''float32'' (Float32Array style) [1, nat STYLE_DIM]";
      cases "Tensor_throws rt ''float32'' (Float32Array [speed]) [1]")
     (auto simp: prepare_inputs_def new_Tensor_def action_simps)

lemma checked_waveform_cases:
  obtains "checked_waveform outs = ([], Inl (Error ''Invalid output from model inference''))"
  | waveform where "checked_waveform outs = ([], Inr waveform)"
proof -
  have "checked_waveform outs = ([], Inl (Error ''Invalid output from model inference'')) \<or>
      (\<exists>waveform. checked_waveform outs = ([], Inr waveform))"
    by (simp add: checked_waveform_def action_simps split: option.splits)
  with that show thesis by blast
qed

lemma floatArrayToAudioFile_obliging:
  "floatArrayToAudioFile (obliging_runtime voice outs) waveform =
     ([Call_writeAsStringAsync ''cache/temp_audio_0.wav''
         (map (\<lambda>b. char_of (unat b))
            (riff_header 24000 (length waveform * 2) @
             concat (map (bytes16 \<circ> floatToInt16) waveform))),
       Console_log ''Audio saved to:''],
      Inr ''cache/temp_audio_0.wav'')"
  by (simp add: floatArrayToAudioFile_def floatArrayToWav_bytes SAMPLE_RATE_def
      arrayBufferToBase64_def obliging_runtime_def action_simps Let_def)

lemma generateAudio_obliging_run:
  "run_inputs (fst (generateAudio loaded (obliging_runtime voice outs) text voiceId speed)) =
     [[(''input_ids'', Tensor ''int64'' (Int32Array (tokenize ascii_toLowerCase text))
          [1, length (tokenize ascii_toLowerCase text)]),
       (''style'', Tensor ''float32''
          (Float32Array (array_slice voice (numTokens (tokenize ascii_toLowerCase text) * 256)
             (numTokens (tokenize ascii_toLowerCase text) * 256 + 256))) [1, 256]),
       (''speed'', Tensor ''float32'' (Float32Array [speed]) [1])]]"
proof (cases rule: checked_waveform_cases [of outs])
  case 1
  then show ?thesis
    by (simp add: generateAudio_def loaded_def styleData_def prepare_inputs_def new_Tensor_def
        STYLE_DIM_def action_simps run_inputs_append Let_def floatArrayToAudioFile_obliging)
      (simp add: obliging_runtime_def action_simps)
next
  case (2 waveform)
  then show ?thesis
    by (simp add: generateAudio_def loaded_def styleData_def prepare_inputs_def new_Tensor_def
        STYLE_DIM_def action_simps run_inputs_append Let_def floatArrayToAudioFile_obliging)
      (simp add: obliging_runtime_def action_simps)
qed

lemma generateAudio_obliging_waveform:
  "snd (generateAudio loaded (obliging_runtime voice (waveform_output (Some waveform)))
      text voiceId speed) = Inr ''cache/temp_audio_0.wav'' \<and>
   length (filter audio_event (fst (generateAudio loaded
      (obliging_runtime voice (waveform_output (Some waveform))) text voiceId speed))) = 2"
  by (simp add: generateAudio_def loaded_def styleData_def prepare_inputs_def new_Tensor_def
        STYLE_DIM_def action_simps Let_def floatArrayToAudioFile_obliging
        checked_waveform_present)
     (simp add: obliging_runtime_def action_simps checked_waveform_present)

text \<open>
  Claim C6. The token count that \<open>generateAudio\<close> uses for the style lookup is
  \<open>min (max (length tokens - 2) 0) 509\<close>: it lies between 0 and 509, for the result of
  \<open>tokenize\<close> it is the number of mapped symbols capped at 509, and for the tokens
  \<open>[0, 40, 41, 3, 0]\<close> it is 3. When every collaborator succeeds, the style tensor of the
  inference call is the slice of the voice blob at this count times 256.
\<close>

theorem numTokens_range:
  "numTokens tokens = min (max (int (length tokens) - 2) 0) 509 \<and>
   0 \<le> numTokens tokens \<and> numTokens tokens \<le> 509 \<and>
   numTokens (tokenize toLower text) =
     min (int (length (filter (\<lambda>c. VOCAB_get c \<noteq> None) (toLower text)))) 509 \<and>
   numTokens [0, 40, 41, 3, 0] = 3 \<and>
   map style_input (run_inputs (fst (generateAudio loaded (obliging_runtime voice outs)
      text voiceId speed))) =
     [Some (Float32Array (array_slice voice (numTokens (tokenize ascii_toLowerCase text) * 256)
        (numTokens (tokenize ascii_toLowerCase text) * 256 + 256)))]"
  by (simp add: numTokens_def length_tokenize generateAudio_obliging_run style_input_def)

text \<open>
  Every inference call of a request receives the whole result of \<open>tokenize\<close> as
  \<open>input_ids\<close>, whatever its length.
\<close>

lemma floatArrayToAudioFile_no_run:
  "run_inputs (fst (floatArrayToAudioFile rt waveform)) = []"
  by (cases "writeAsStringAsync rt (cacheDirectory rt @ ''temp_audio_'' @ Date_now rt @ ''.wav'')
        (arrayBufferToBase64 rt (riff_header SAMPLE_RATE (length waveform * 2) @
          concat (map (bytes16 \<circ> floatToInt16) waveform)))")
    (simp_all add: floatArrayToAudioFile_def floatArrayToWav_bytes action_simps Let_def)

lemma prepare_inputs_dims:
  "prepare_inputs rt tokens style speed = (tr, Inr inputs) \<Longrightarrow>
   input_ids_dims inputs = Some [1, length tokens]"
  by (cases "Tensor_throws rt ''int64'' (Int32Array tokens) [1, length tokens]";
      cases "Tensor_throws rt ''int64'' (NumberArray tokens) [1, length tokens]";
      cases "Tensor_throws rt ''float32'' (Float32Array style) [1, nat STYLE_DIM]";
      cases "Tensor_throws rt ''float32'' (Float32Array [speed]) [1]")
     (auto simp: prepare_inputs_def new_Tensor_def action_simps input_ids_dims_def)

lemma generateAudio_input_ids_uncapped:
  "list_all (\<lambda>inputs. input_ids_dims inputs = Some [1, length (tokenize (toLowerCase rt) text)])
     (run_inputs (fst (generateAudio this rt text voiceId speed)))"
proof (cases "isOnnxAvailable this \<and> isModelLoaded this")
  case False
  then show ?thesis
    by (auto simp: generateAudio_def action_simps)
next
  case True
  let ?tokens = "tokenize (toLowerCase rt) text"
  show ?thesis
  proof (cases rule: styleData_cases [of rt voiceId "numTokens ?tokens"])
    case (1 e)
    with True show ?thesis
      by (simp add: generateAudio_def action_simps run_inputs_append)
  next
    case (2 style)
    show ?thesis
    proof (cases rule: prepare_inputs_cases [of rt ?tokens style speed])
      case (1 tr e)
      with True 2 show ?thesis
        by (simp add: generateAudio_def action_simps run_inputs_append)
    next
      case (2 tr inputs)
      note p = this
      have d: "input_ids_dims inputs = Some [1, length ?tokens]"
        using p(1) by (rule prepare_inputs_dims)
      show ?thesis
      proof (cases "session_run rt inputs")
        case (Inl e)
        with True \<open>styleData rt voiceId (numTokens ?tokens) = _\<close> p d show ?thesis
          by (simp add: generateAudio_def action_simps run_inputs_append)
      next
        case (Inr outs)
        show ?thesis
        proof (cases rule: checked_waveform_cases [of outs])
          case 1
          with Inr True \<open>styleData rt voiceId (numTokens ?tokens) = _\<close> p d show ?thesis
            by (simp add: generateAudio_def action_simps run_inputs_append)
        next
          case (2 waveform)
          obtain tr' r where f: "floatArrayToAudioFile rt waveform = (tr', r)"
            by (cases "floatArrayToAudioFile rt waveform")
          with floatArrayToAudioFile_no_run [of rt waveform] have n: "run_inputs tr' = []"
            by simp
          from 2 Inr True \<open>styleData rt voiceId (numTokens ?tokens) = _\<close> p d f n show ?thesis
            by (cases r; cases "createAsync rt (projr r)")
              (simp_all add: generateAudio_def action_simps run_inputs_append)
        qed
      qed
    qed
  qed
qed

text \<open>
  Claim C9 at a text of 600 letters \<open>a\<close>: \<open>tokenize\<close> returns 602 tokens, the style
  token count is capped at 509, and the \<open>input_ids\<close> tensor handed to the inference
  call has the dimensions \<open>[1, 602]\<close>. Nothing between \<open>tokenize\<close> and the tensor
  shortens the tokens, and \<open>MAX_PHONEME_LENGTH\<close> is not used.
\<close>

theorem generateAudio_long_text:
  "length (tokenize ascii_toLowerCase (replicate 600 (code CHR ''a''))) = 602 \<and>
   numTokens (tokenize ascii_toLowerCase (replicate 600 (code CHR ''a''))) = 509 \<and>
   map input_ids_dims (run_inputs (fst (generateAudio loaded
     (obliging_runtime (replicate 130560 (Finite 0)) (waveform_output (Some [Finite 0])))
     (replicate 600 (code CHR ''a'')) ''af_heart'' (Finite 1)))) = [Some [1, 602]]"
  by (simp add: generateAudio_obliging_run input_ids_dims_def tokenize_replicate_a numTokens_def)

text \<open>
  Claim C10, as amended. When the inference call answers with no outputs, with outputs
  that have no \<open>waveform\<close>, or with a \<open>waveform\<close> whose data is null or undefined,
  \<open>generateAudio\<close> ends with an error, which is
  \<open>Invalid output from model inference\<close> whenever the inference call was reached, and
  neither writes the audio file nor creates a sound. Data that is present passes the
  check, also when it is an empty array.
\<close>

theorem generateAudio_rejects_missing_waveform:
  assumes run: "\<forall>inputs. session_run rt inputs = Inr outs" and bad: "no_waveform outs"
  shows "(\<exists>e. snd (generateAudio this rt text voiceId speed) = Inl e) \<and>
    filter audio_event (fst (generateAudio this rt text voiceId speed)) = [] \<and>
    (run_inputs (fst (generateAudio this rt text voiceId speed)) \<noteq> [] \<longrightarrow>
       snd (generateAudio this rt text voiceId speed)
         = Inl (Error ''Invalid output from model inference'')) \<and>
    checked_waveform (waveform_output (Some waveform)) = ([], Inr waveform)"
proof (cases "isOnnxAvailable this \<and> isModelLoaded this")
  case False
  then show ?thesis
    by (auto simp: generateAudio_def action_simps checked_waveform_present)
next
  case True
  let ?tokens = "tokenize (toLowerCase rt) text"
  show ?thesis
  proof (cases rule: styleData_cases [of rt voiceId "numTokens ?tokens"])
    case (1 e)
    with True show ?thesis
      by (simp add: generateAudio_def action_simps checked_waveform_present run_inputs_append)
  next
    case (2 style)
    show ?thesis
    proof (cases rule: prepare_inputs_cases [of rt ?tokens style speed])
      case (1 tr e)
      with True 2 show ?thesis
        by (simp add: generateAudio_def action_simps checked_waveform_present run_inputs_append)
    next
      case (2 tr inputs)
      with True \<open>styleData rt voiceId (numTokens ?tokens) = _\<close> run
        checked_waveform_throws [OF bad]
      show ?thesis
        by (simp add: generateAudio_def action_simps checked_waveform_present run_inputs_append)
    qed
  qed
qed

text \<open>
  Claim C10 as amended, at the text \<open>Hi.\<close> with every collaborator succeeding and an
  inference call that answers null.
\<close>

theorem generateAudio_rejects_missing_waveform_witness:
  "(\<forall>inputs. session_run (obliging_runtime (replicate 130560 (Finite 0)) None) inputs = Inr None) \<and>
   no_waveform None \<and>
   run_inputs (fst (generateAudio loaded (obliging_runtime (replicate 130560 (Finite 0)) None)
      (js_string ''Hi.'') ''af_heart'' (Finite 1))) \<noteq> [] \<and>
   snd (generateAudio loaded (obliging_runtime (replicate 130560 (Finite 0)) None)
      (js_string ''Hi.'') ''af_heart'' (Finite 1))
     = Inl (Error ''Invalid output from model inference'') \<and>
   filter audio_event (fst (generateAudio loaded
      (obliging_runtime (replicate 130560 (Finite 0)) None)
      (js_string ''Hi.'') ''af_heart'' (Finite 1))) = []"
proof -
  let ?rt = "obliging_runtime (replicate 130560 (Finite 0)) None"
  have run: "\<forall>inputs. session_run ?rt inputs = Inr None"
    by (simp add: obliging_runtime_def)
  have bad: "no_waveform None"
    by (simp add: no_waveform_def)
  have called: "run_inputs (fst (generateAudio loaded ?rt (js_string ''Hi.'') ''af_heart''
      (Finite 1))) \<noteq> []"
    by (simp add: generateAudio_obliging_run)
  from generateAudio_rejects_missing_waveform [OF run bad, of loaded "js_string ''Hi.''"
    "''af_heart''" "Finite 1"] run bad called
  show ?thesis by simp
qed

text \<open>
  Claim C10, as stated, fails for empty data: when the \<open>waveform\<close> output carries an
  empty array, \<open>generateAudio\<close> raises no error, writes the audio file and creates the
  sound from it.
\<close>

theorem generateAudio_empty_waveform_counterexample:
  "snd (generateAudio loaded
      (obliging_runtime (replicate 130560 (Finite 0)) (waveform_output (Some [])))
      (js_string ''Hi.'') ''af_heart'' (Finite 1)) = Inr ''cache/temp_audio_0.wav'' \<and>
   length (filter audio_event (fst (generateAudio loaded
      (obliging_runtime (replicate 130560 (Finite 0)) (waveform_output (Some [])))
      (js_string ''Hi.'') ''af_heart'' (Finite 1)))) = 2"
  by (rule generateAudio_obliging_waveform)

end
